theory Spec2Isabelle
  imports Main "HOL-Library.Word"
begin

unbundle bit_operations_syntax

section \<open>The Microsemi MSS GPIO driver (drivers/gpio/gpio-microsemi.c)\<close>

text \<open>
  The driver talks to one memory-mapped register block. The block is modelled as a store
  of 32-bit registers indexed by their word offset from \<open>mss_gpio->base\<close>: the 32 per-line
  configuration registers at byte offsets 0x00 .. 0x7C, the interrupt-status register at
  0x80, the input register at 0x84 and the output register at 0x88. Every function of the
  driver is a state transformer on that store; a function that returns a value returns it
  next to the new state. The raw spinlock only serialises callers and has no effect on a
  sequential run, so it does not appear.
\<close>

subsection \<open>Constants and macros\<close>

type_synonym MSS_GPIO_REG_TYPE = "32 word"

definition MSS_NUM_GPIO :: nat where
  "MSS_NUM_GPIO = 32"

definition MSS_GPIO_X_CFG_EN_INT :: nat where
  "MSS_GPIO_X_CFG_EN_INT = 3"

definition MSS_GPIO_X_CFG_BIT_GPIO_OE :: nat where
  "MSS_GPIO_X_CFG_BIT_GPIO_OE = 2"

definition MSS_GPIO_X_CFG_BIT_EN_IN :: nat where
  "MSS_GPIO_X_CFG_BIT_EN_IN = 1"

definition MSS_GPIO_X_CFG_BIT_EN_OUT :: nat where
  "MSS_GPIO_X_CFG_BIT_EN_OUT = 0"

definition MSS_GPIO_INTR_EDGE_BOTH_MASK :: "32 word" where
  "MSS_GPIO_INTR_EDGE_BOTH_MASK = push_bit 5 4"

definition MSS_GPIO_INTR_EDGE_NEGATIVE_MASK :: "32 word" where
  "MSS_GPIO_INTR_EDGE_NEGATIVE_MASK = push_bit 5 3"

definition MSS_GPIO_INTR_EDGE_POSITIVE_MASK :: "32 word" where
  "MSS_GPIO_INTR_EDGE_POSITIVE_MASK = push_bit 5 2"

definition MSS_GPIO_INTR_LEVEL_LOW_MASK :: "32 word" where
  "MSS_GPIO_INTR_LEVEL_LOW_MASK = push_bit 5 1"

definition MSS_GPIO_INTR_LEVEL_HIGH_MASK :: "32 word" where
  "MSS_GPIO_INTR_LEVEL_HIGH_MASK = push_bit 5 0"

text \<open>
  \<open>BIT(n)\<close> is \<open>1UL << n\<close>. The driver only combines it with 32-bit register values and
  only for \<open>n < 32\<close> (a line index below \<open>MSS_NUM_GPIO\<close> or one of the configuration bit
  numbers), so the low 32 bits are all that is ever used.
\<close>

definition BIT :: "nat \<Rightarrow> 32 word" where
  "BIT n = push_bit n 1"

text \<open>
  \<open>BIT_MASK(nr)\<close> is \<open>1UL << (nr % BITS_PER_LONG)\<close>. The PolarFire SoC is a 64-bit RISC-V
  target, so \<open>unsigned long\<close> has 64 bits. \<open>MSS_GPIO_IRQ_MASK\<close> is combined with the
  32-bit status value and the result is stored in a 32-bit variable.
\<close>

definition BITS_PER_LONG :: nat where
  "BITS_PER_LONG = 64"

definition BIT_MASK :: "nat \<Rightarrow> 64 word" where
  "BIT_MASK nr = push_bit (nr mod BITS_PER_LONG) 1"

definition MSS_GPIO_IRQ_MASK :: "32 word" where
  "MSS_GPIO_IRQ_MASK = ucast (BIT_MASK 32 - 1)"

text \<open>
  Modelled from the spec: the trigger requests a consumer can make (the four edge/level
  kinds plus both edges). The driver switches on the constants of the kernel header
  include/linux/irq.h, which is not part of the driver file; they carry the values that
  header gives them.
\<close>

definition IRQ_TYPE_EDGE_RISING :: "32 word" where
  "IRQ_TYPE_EDGE_RISING = 1"

definition IRQ_TYPE_EDGE_FALLING :: "32 word" where
  "IRQ_TYPE_EDGE_FALLING = 2"

definition IRQ_TYPE_EDGE_BOTH :: "32 word" where
  "IRQ_TYPE_EDGE_BOTH = IRQ_TYPE_EDGE_FALLING OR IRQ_TYPE_EDGE_RISING"

definition IRQ_TYPE_LEVEL_HIGH :: "32 word" where
  "IRQ_TYPE_LEVEL_HIGH = 4"

definition IRQ_TYPE_LEVEL_LOW :: "32 word" where
  "IRQ_TYPE_LEVEL_LOW = 8"

text \<open>
  Error returns: the three codes the driver names itself, and \<open>ERRNO e\<close> for a code
  \<open>e\<close> that a kernel call produced and the probe function hands up unchanged.
\<close>

datatype errno = ENOMEM | EINVAL | ENODEV | ERRNO int

subsection \<open>The register window\<close>

text \<open>
  Word offsets of the sub-blocks, as the probe function computes them from
  \<open>mss_gpio->base\<close> (a pointer to 32-bit registers, so a byte offset is divided by 4).
\<close>

definition sizeof_MSS_GPIO_REG_TYPE :: nat where
  "sizeof_MSS_GPIO_REG_TYPE = 4"

definition gpio_cfg_base :: nat where
  "gpio_cfg_base = 0x00 div sizeof_MSS_GPIO_REG_TYPE"

definition gpio_irq_base :: nat where
  "gpio_irq_base = 0x80 div sizeof_MSS_GPIO_REG_TYPE"

definition gpio_in_base :: nat where
  "gpio_in_base = 0x84 div sizeof_MSS_GPIO_REG_TYPE"

definition gpio_out_base :: nat where
  "gpio_out_base = 0x88 div sizeof_MSS_GPIO_REG_TYPE"

definition MSS_GPIO_INDEX_TO_CFG :: "nat \<Rightarrow> nat \<Rightarrow> nat" where
  "MSS_GPIO_INDEX_TO_CFG cfg_base gpio_port_index = cfg_base + gpio_port_index"

text \<open>
  The driver instance together with the device it drives: \<open>ngpio\<close> is \<open>gc.ngpio\<close>, \<open>regs\<close>
  the content of the register window. Two logs record what leaves the driver: every
  \<open>iowrite32\<close> with its register and value, and every line handed to
  \<open>generic_handle_irq\<close>, both oldest first.
\<close>

record mss_gpio_chip =
  ngpio :: nat
  regs :: "nat \<Rightarrow> MSS_GPIO_REG_TYPE"
  iowrites :: "(nat \<times> MSS_GPIO_REG_TYPE) list"
  handled :: "nat list"

text \<open>
  Modelled from the spec: what the device does with a value written to a register. The
  interrupt-status register is write-1-to-clear (a written 1 clears the sticky bit, a
  written 0 leaves it); the configuration and output registers hold the value last
  written. The driver file contains only the bus accesses, not the device.
\<close>

definition device_write ::
  "nat \<Rightarrow> MSS_GPIO_REG_TYPE \<Rightarrow> (nat \<Rightarrow> MSS_GPIO_REG_TYPE) \<Rightarrow> (nat \<Rightarrow> MSS_GPIO_REG_TYPE)" where
  "device_write addr v m =
     (if addr = gpio_irq_base then m(addr := m addr AND NOT v) else m(addr := v))"

definition MSS_GPIO_IOREAD :: "mss_gpio_chip \<Rightarrow> nat \<Rightarrow> MSS_GPIO_REG_TYPE" where
  "MSS_GPIO_IOREAD st addr = regs st addr"

definition MSS_GPIO_IOWRITE :: "MSS_GPIO_REG_TYPE \<Rightarrow> nat \<Rightarrow> mss_gpio_chip \<Rightarrow> mss_gpio_chip" where
  "MSS_GPIO_IOWRITE v addr st =
     st\<lparr>regs := device_write addr v (regs st), iowrites := iowrites st @ [(addr, v)]\<rparr>"

text \<open>
  \<open>generic_handle_irq(irq_find_mapping(domain, offset))\<close> hands line \<open>offset\<close> to whatever
  consumer is registered for it; the consumer is outside the driver.
\<close>

definition generic_handle_irq :: "nat \<Rightarrow> mss_gpio_chip \<Rightarrow> mss_gpio_chip" where
  "generic_handle_irq offset st = st\<lparr>handled := handled st @ [offset]\<rparr>"

subsection \<open>Line operations\<close>

definition microsemi_mss_gpio_assign_bit :: "nat \<Rightarrow> nat \<Rightarrow> int \<Rightarrow> mss_gpio_chip \<Rightarrow> mss_gpio_chip" where
  "microsemi_mss_gpio_assign_bit base_addr bit_offset val st =
     (let output = MSS_GPIO_IOREAD st base_addr;
          output = (if val \<noteq> 0 then output OR BIT bit_offset
                    else output AND NOT (BIT bit_offset))
      in MSS_GPIO_IOWRITE output base_addr st)"

definition microsemi_mss_gpio_direction_input ::
  "mss_gpio_chip \<Rightarrow> 32 word \<Rightarrow> (errno + int) \<times> mss_gpio_chip" where
  "microsemi_mss_gpio_direction_input st gpio_index =
     (if unat gpio_index \<ge> ngpio st then (Inl EINVAL, st)
      else
        let cfg = MSS_GPIO_INDEX_TO_CFG gpio_cfg_base (unat gpio_index);
            gpio_cfg = MSS_GPIO_IOREAD st cfg;
            gpio_cfg = gpio_cfg OR BIT MSS_GPIO_X_CFG_BIT_EN_IN;
            gpio_cfg = gpio_cfg AND NOT (BIT MSS_GPIO_X_CFG_BIT_EN_OUT OR
                                         BIT MSS_GPIO_X_CFG_BIT_GPIO_OE)
        in (Inr 0, MSS_GPIO_IOWRITE gpio_cfg cfg st))"

definition microsemi_mss_gpio_direction_output ::
  "mss_gpio_chip \<Rightarrow> 32 word \<Rightarrow> int \<Rightarrow> (errno + int) \<times> mss_gpio_chip" where
  "microsemi_mss_gpio_direction_output st gpio_index val =
     (if unat gpio_index \<ge> ngpio st then (Inl EINVAL, st)
      else
        let cfg = MSS_GPIO_INDEX_TO_CFG gpio_cfg_base (unat gpio_index);
            gpio_cfg = 0;
            gpio_cfg = gpio_cfg OR (BIT MSS_GPIO_X_CFG_BIT_EN_OUT OR
                                    BIT MSS_GPIO_X_CFG_BIT_GPIO_OE);
            gpio_cfg = gpio_cfg AND NOT (BIT MSS_GPIO_X_CFG_BIT_EN_IN);
            st = MSS_GPIO_IOWRITE gpio_cfg cfg st
        in (Inr 0, microsemi_mss_gpio_assign_bit gpio_out_base (unat gpio_index) val st))"

definition microsemi_mss_gpio_get_direction :: "mss_gpio_chip \<Rightarrow> 32 word \<Rightarrow> errno + int" where
  "microsemi_mss_gpio_get_direction st gpio_index =
     (if unat gpio_index \<ge> ngpio st then Inl EINVAL
      else
        let gpio_cfg = MSS_GPIO_IOREAD st (MSS_GPIO_INDEX_TO_CFG gpio_cfg_base (unat gpio_index))
        in if gpio_cfg AND BIT MSS_GPIO_X_CFG_BIT_EN_IN \<noteq> 0 then Inr 1
           else if gpio_cfg AND (BIT MSS_GPIO_X_CFG_BIT_EN_OUT OR BIT MSS_GPIO_X_CFG_BIT_GPIO_OE)
                   = (BIT MSS_GPIO_X_CFG_BIT_EN_OUT OR BIT MSS_GPIO_X_CFG_BIT_GPIO_OE)
           then Inr 0
           else Inr 0)"

definition microsemi_mss_gpio_get_value :: "mss_gpio_chip \<Rightarrow> 32 word \<Rightarrow> errno + int" where
  "microsemi_mss_gpio_get_value st gpio_index =
     (if unat gpio_index \<ge> ngpio st then Inl EINVAL
      else Inr (if MSS_GPIO_IOREAD st gpio_in_base AND BIT (unat gpio_index) \<noteq> 0 then 1 else 0))"


subsection \<open>Interrupt-chip operations\<close>

text \<open>
  \<open>irqd_to_hwirq\<close> yields an \<open>unsigned long\<close>. \<open>irq_set_type\<close> stores it in an \<open>int\<close>
  (the low 32 bits, read as two's complement) and checks that against \<open>gc->ngpio\<close>;
  \<open>irq_enable\<close> and \<open>irq_disable\<close> reduce it modulo \<open>MSS_NUM_GPIO\<close> instead.
\<close>

definition hwirq_to_int :: "64 word \<Rightarrow> int" where
  "hwirq_to_int hwirq = sint (ucast hwirq :: 32 word)"

definition interrupt_type_of :: "32 word \<Rightarrow> 32 word" where
  "interrupt_type_of type =
     (if type = IRQ_TYPE_EDGE_BOTH then MSS_GPIO_INTR_EDGE_BOTH_MASK
      else if type = IRQ_TYPE_EDGE_FALLING then MSS_GPIO_INTR_EDGE_NEGATIVE_MASK
      else if type = IRQ_TYPE_EDGE_RISING then MSS_GPIO_INTR_EDGE_POSITIVE_MASK
      else if type = IRQ_TYPE_LEVEL_HIGH then MSS_GPIO_INTR_LEVEL_HIGH_MASK
      else MSS_GPIO_INTR_LEVEL_LOW_MASK)"

definition microsemi_mss_gpio_irq_set_type ::
  "mss_gpio_chip \<Rightarrow> 64 word \<Rightarrow> 32 word \<Rightarrow> (errno + int) \<times> mss_gpio_chip" where
  "microsemi_mss_gpio_irq_set_type st hwirq type =
     (let gpio_index = hwirq_to_int hwirq
      in if gpio_index < 0 \<or> gpio_index \<ge> int (ngpio st) then (Inl EINVAL, st)
         else
           let interrupt_type = interrupt_type_of type;
               cfg = MSS_GPIO_INDEX_TO_CFG gpio_cfg_base (nat gpio_index);
               gpio_cfg = MSS_GPIO_IOREAD st cfg;
               gpio_cfg = gpio_cfg OR interrupt_type
           in (Inr 0, MSS_GPIO_IOWRITE gpio_cfg cfg st))"

definition microsemi_mss_gpio_irq_mask :: "mss_gpio_chip \<Rightarrow> 64 word \<Rightarrow> mss_gpio_chip" where
  "microsemi_mss_gpio_irq_mask st hwirq = st"

definition microsemi_mss_gpio_irq_unmask :: "mss_gpio_chip \<Rightarrow> 64 word \<Rightarrow> mss_gpio_chip" where
  "microsemi_mss_gpio_irq_unmask st hwirq = st"

definition microsemi_mss_gpio_irq_enable :: "mss_gpio_chip \<Rightarrow> 64 word \<Rightarrow> mss_gpio_chip" where
  "microsemi_mss_gpio_irq_enable st hwirq =
     (let gpio_index = unat hwirq mod MSS_NUM_GPIO;
          st = snd (microsemi_mss_gpio_direction_input st (of_nat gpio_index));
          st = microsemi_mss_gpio_assign_bit gpio_irq_base gpio_index 1 st
      in microsemi_mss_gpio_assign_bit (MSS_GPIO_INDEX_TO_CFG gpio_cfg_base gpio_index)
           MSS_GPIO_X_CFG_EN_INT 1 st)"

definition microsemi_mss_gpio_irq_disable :: "mss_gpio_chip \<Rightarrow> 64 word \<Rightarrow> mss_gpio_chip" where
  "microsemi_mss_gpio_irq_disable st hwirq =
     (let gpio_index = unat hwirq mod MSS_NUM_GPIO
      in microsemi_mss_gpio_assign_bit (MSS_GPIO_INDEX_TO_CFG gpio_cfg_base gpio_index)
           MSS_GPIO_X_CFG_EN_INT 0 st)"

subsection \<open>Interrupt dispatch\<close>

text \<open>
  \<open>for_each_set_bit(offset, &status, size)\<close> visits, in increasing order, the positions
  below \<open>size\<close> at which the bitmap has a 1. The bitmap is the 32-bit snapshot \<open>status\<close>;
  the probe function keeps \<open>size = gc.ngpio\<close> at 32 or below.

  \<open>microsemi_gpio_irq_handler\<close> is the handler the probe function registers; it always
  returns \<open>IRQ_HANDLED\<close>, so only its effect on the controller is modelled. The chained
  variant \<open>microsemi_mss_gpio_irq_handler\<close> is never installed and is left out.
\<close>

definition for_each_set_bit :: "32 word \<Rightarrow> nat \<Rightarrow> nat list" where
  "for_each_set_bit status nbits = filter (\<lambda>offset. bit status offset) [0..<nbits]"

fun microsemi_gpio_irq_handler_loop :: "nat list \<Rightarrow> mss_gpio_chip \<Rightarrow> mss_gpio_chip" where
  "microsemi_gpio_irq_handler_loop [] st = st"
| "microsemi_gpio_irq_handler_loop (offset # rest) st =
     microsemi_gpio_irq_handler_loop rest
       (generic_handle_irq offset (microsemi_mss_gpio_assign_bit gpio_irq_base offset 1 st))"

definition microsemi_gpio_irq_handler :: "mss_gpio_chip \<Rightarrow> mss_gpio_chip" where
  "microsemi_gpio_irq_handler st =
     (let status = MSS_GPIO_IOREAD st gpio_irq_base AND MSS_GPIO_IRQ_MASK
      in microsemi_gpio_irq_handler_loop (for_each_set_bit status (ngpio st)) st)"

subsection \<open>Bring-up\<close>

text \<open>
  What the platform hands to the probe function: the outcome of each call into the
  kernel, in the order the probe function makes them, and the register window as the
  hardware left it. \<open>of_irq_count\<close> counts device-tree entries and is never negative.
\<close>

record platform_device =
  devm_kzalloc_ok :: bool
  devm_ioremap_resource_err :: "int option"
  devm_clk_get_err :: "int option"
  clk_prepare_enable_ret :: int
  of_irq_count :: nat
  devm_irq_alloc_descs_ret :: int
  gpiochip_add_data_ret :: int
  devm_request_irq_ret :: int
  window :: "nat \<Rightarrow> MSS_GPIO_REG_TYPE"

fun microsemi_mss_gpio_probe_loop :: "nat list \<Rightarrow> mss_gpio_chip \<Rightarrow> mss_gpio_chip" where
  "microsemi_mss_gpio_probe_loop [] st = st"
| "microsemi_mss_gpio_probe_loop (gpio_index # rest) st =
     microsemi_mss_gpio_probe_loop rest
       (let cfg = MSS_GPIO_INDEX_TO_CFG gpio_cfg_base gpio_index;
            gpio_cfg = MSS_GPIO_IOREAD st cfg;
            gpio_cfg = gpio_cfg AND NOT (BIT MSS_GPIO_X_CFG_EN_INT)
        in MSS_GPIO_IOWRITE gpio_cfg cfg st)"

definition microsemi_mss_gpio_probe :: "platform_device \<Rightarrow> errno + mss_gpio_chip" where
  "microsemi_mss_gpio_probe pdev =
     (if \<not> devm_kzalloc_ok pdev then Inl ENOMEM
      else case devm_ioremap_resource_err pdev of Some e \<Rightarrow> Inl (ERRNO e)
      | None \<Rightarrow>
      (case devm_clk_get_err pdev of Some e \<Rightarrow> Inl (ERRNO e)
      | None \<Rightarrow>
      if clk_prepare_enable_ret pdev \<noteq> 0 then Inl EINVAL
      else if of_irq_count pdev > MSS_NUM_GPIO then Inl EINVAL
      else if devm_irq_alloc_descs_ret pdev < 0 then Inl ENODEV
      else if gpiochip_add_data_ret pdev \<noteq> 0 then Inl (ERRNO (gpiochip_add_data_ret pdev))
      else
        let st = \<lparr>ngpio = of_irq_count pdev, regs = window pdev, iowrites = [], handled = []\<rparr>
        in Inr (microsemi_mss_gpio_probe_loop [0..<of_irq_count pdev] st)))"

subsection \<open>Concrete controllers\<close>

text \<open>
  Ten-line controllers used to run the driver on concrete register contents: one with
  every register at 0, one with lines 2 and 5 pending, one with lines 2 and 7 pending,
  one with lines 2, 5 and 9 pending, and one whose line 3 is an input with its interrupt
  enabled and a trigger type set.
\<close>

definition chip_idle :: mss_gpio_chip where
  "chip_idle = \<lparr>ngpio = 10, regs = (\<lambda>_. 0), iowrites = [], handled = []\<rparr>"

definition chip_two_pending :: mss_gpio_chip where
  "chip_two_pending =
     \<lparr>ngpio = 10, regs = (\<lambda>_. 0)(gpio_irq_base := BIT 2 OR BIT 5),
      iowrites = [], handled = []\<rparr>"

definition chip_late_pending :: mss_gpio_chip where
  "chip_late_pending =
     \<lparr>ngpio = 10, regs = (\<lambda>_. 0)(gpio_irq_base := BIT 2 OR BIT 7),
      iowrites = [], handled = []\<rparr>"

definition chip_three_pending :: mss_gpio_chip where
  "chip_three_pending =
     \<lparr>ngpio = 10, regs = (\<lambda>_. 0)(gpio_irq_base := BIT 2 OR BIT 5 OR BIT 9),
      iowrites = [], handled = []\<rparr>"

definition chip_armed :: mss_gpio_chip where
  "chip_armed =
     \<lparr>ngpio = 10,
      regs = (\<lambda>_. 0)(MSS_GPIO_INDEX_TO_CFG gpio_cfg_base 3 :=
               BIT MSS_GPIO_X_CFG_BIT_EN_IN OR BIT MSS_GPIO_X_CFG_EN_INT
                 OR MSS_GPIO_INTR_EDGE_POSITIVE_MASK),
      iowrites = [], handled = []\<rparr>"

text \<open>
  Two platforms: one that describes eight lines, whose window comes up with the
  interrupt-enable bit and a trigger bit set in every configuration register, and one
  that describes 33 lines.
\<close>

definition pdev_eight_lines :: platform_device where
  "pdev_eight_lines =
     \<lparr>devm_kzalloc_ok = True, devm_ioremap_resource_err = None, devm_clk_get_err = None,
      clk_prepare_enable_ret = 0, of_irq_count = 8, devm_irq_alloc_descs_ret = 64,
      gpiochip_add_data_ret = 0, devm_request_irq_ret = 0,
      window = (\<lambda>_. BIT MSS_GPIO_X_CFG_EN_INT OR MSS_GPIO_INTR_LEVEL_LOW_MASK)\<rparr>"

definition pdev_too_many_lines :: platform_device where
  "pdev_too_many_lines = pdev_eight_lines\<lparr>of_irq_count := 33\<rparr>"

section \<open>Properties of the driver\<close>

subsection \<open>Registers, bits and bus accesses\<close>

lemma base_offsets:
  "gpio_cfg_base = 0" "gpio_irq_base = 32" "gpio_in_base = 33" "gpio_out_base = 34"
  by (simp_all add: gpio_cfg_base_def gpio_irq_base_def gpio_in_base_def gpio_out_base_def
      sizeof_MSS_GPIO_REG_TYPE_def)

lemma cfg_bits:
  "MSS_GPIO_X_CFG_BIT_EN_OUT = 0" "MSS_GPIO_X_CFG_BIT_EN_IN = 1"
  "MSS_GPIO_X_CFG_BIT_GPIO_OE = 2" "MSS_GPIO_X_CFG_EN_INT = 3"
  by (simp_all add: MSS_GPIO_X_CFG_BIT_EN_OUT_def MSS_GPIO_X_CFG_BIT_EN_IN_def
      MSS_GPIO_X_CFG_BIT_GPIO_OE_def MSS_GPIO_X_CFG_EN_INT_def)

lemma bit_BIT: "bit (BIT n) m \<longleftrightarrow> m = n \<and> n < 32"
  by (auto simp add: BIT_def bit_simps)

lemma irq_mask_all: "MSS_GPIO_IRQ_MASK = - 1"
  by (simp add: MSS_GPIO_IRQ_MASK_def BIT_MASK_def BITS_PER_LONG_def)

lemma and_BIT_neq0: "w AND BIT n \<noteq> 0 \<longleftrightarrow> bit w n \<and> n < 32"
proof
  assume "w AND BIT n \<noteq> 0"
  then obtain m where "bit (w AND BIT n) m"
    by (auto simp add: bit_eq_iff)
  then show "bit w n \<and> n < 32"
    by (auto simp add: bit_and_iff bit_BIT)
next
  assume "bit w n \<and> n < 32"
  then have "bit (w AND BIT n) n"
    by (simp add: bit_and_iff bit_BIT)
  then show "w AND BIT n \<noteq> 0"
    by auto
qed

lemma clear_all: "w AND NOT (w OR b) = 0" for w b :: "32 word"
  by (rule bit_eqI) (simp add: bit_or_iff bit_and_iff bit_not_iff)

lemma or_absorb_left: "(a OR b) OR a = a OR b" for a b :: "32 word"
  by (rule bit_eqI) (auto simp add: bit_or_iff)

lemma cfg_output_value:
  "(BIT 0 OR BIT 2) AND NOT (BIT (Suc 0)) = BIT 0 OR BIT 2"
  by (simp add: BIT_def)

lemmas io_defs = MSS_GPIO_IOWRITE_def MSS_GPIO_IOREAD_def device_write_def
  MSS_GPIO_INDEX_TO_CFG_def base_offsets Let_def

lemma assign_bit_regs:
  "regs (microsemi_mss_gpio_assign_bit a n v st) =
     device_write a (if v \<noteq> 0 then regs st a OR BIT n else regs st a AND NOT (BIT n)) (regs st)"
  by (simp add: microsemi_mss_gpio_assign_bit_def io_defs)

lemma assign_bit_iowrites:
  "iowrites (microsemi_mss_gpio_assign_bit a n v st) =
     iowrites st @ [(a, if v \<noteq> 0 then regs st a OR BIT n else regs st a AND NOT (BIT n))]"
  by (simp add: microsemi_mss_gpio_assign_bit_def io_defs)

lemma assign_bit_other:
  "ngpio (microsemi_mss_gpio_assign_bit a n v st) = ngpio st"
  "handled (microsemi_mss_gpio_assign_bit a n v st) = handled st"
  by (simp_all add: microsemi_mss_gpio_assign_bit_def io_defs)

subsection \<open>Line operations\<close>

lemma direction_output_in_range:
  assumes "unat gpio_index < ngpio st" and "ngpio st \<le> 32"
  shows "microsemi_mss_gpio_direction_output st gpio_index v =
    (Inr 0, st\<lparr>regs := (regs st)(unat gpio_index := BIT 0 OR BIT 2,
                   gpio_out_base := (if v \<noteq> 0 then regs st gpio_out_base OR BIT (unat gpio_index)
                                    else regs st gpio_out_base AND NOT (BIT (unat gpio_index)))),
               iowrites := iowrites st @ [(unat gpio_index, BIT 0 OR BIT 2),
                   (gpio_out_base, if v \<noteq> 0 then regs st gpio_out_base OR BIT (unat gpio_index)
                                    else regs st gpio_out_base AND NOT (BIT (unat gpio_index)))]\<rparr>)"
  using assms
  by (simp add: microsemi_mss_gpio_direction_output_def microsemi_mss_gpio_assign_bit_def
      io_defs cfg_bits cfg_output_value)

lemma direction_input_in_range:
  assumes "unat gpio_index < ngpio st"
  shows "microsemi_mss_gpio_direction_input st gpio_index =
    (Inr 0, MSS_GPIO_IOWRITE
       ((regs st (unat gpio_index) OR BIT (Suc 0)) AND NOT (BIT 0 OR BIT 2)) (unat gpio_index) st)"
  using assms
  by (simp add: microsemi_mss_gpio_direction_input_def MSS_GPIO_IOREAD_def
      MSS_GPIO_INDEX_TO_CFG_def base_offsets cfg_bits Let_def)

lemma get_direction_in_range:
  assumes "unat gpio_index < ngpio st"
  shows "microsemi_mss_gpio_get_direction st gpio_index =
     Inr (if bit (regs st (unat gpio_index)) 1 then 1 else 0)"
  using assms
  by (simp add: microsemi_mss_gpio_get_direction_def io_defs and_BIT_neq0 cfg_bits)

lemma get_value_in_range:
  assumes "unat gpio_index < ngpio st" and "ngpio st \<le> 32"
  shows "microsemi_mss_gpio_get_value st gpio_index =
     Inr (if bit (regs st gpio_in_base) (unat gpio_index) then 1 else 0)"
  using assms by (simp add: microsemi_mss_gpio_get_value_def MSS_GPIO_IOREAD_def and_BIT_neq0)

text \<open>
  C6. For a line index below \<open>ngpio\<close>, \<open>direction_output\<close> returns 0 and issues exactly
  two bus writes, in this order: the line's configuration register receives a value that
  does not depend on its previous content and has the bits enable-output and output-enable
  set and every other bit (enable-input, interrupt-enable and the trigger-type bits
  included) clear; then the output register receives its previous content with the line's
  bit set when \<open>v\<close> is non-zero and cleared when \<open>v\<close> is 0, the other lines' bits as
  they were.
\<close>

theorem direction_output_overwrites_config:
  assumes "unat gpio_index < ngpio st" and "ngpio st \<le> 32"
  shows "fst (microsemi_mss_gpio_direction_output st gpio_index v) = Inr 0
    \<and> (\<forall>n. bit (regs (snd (microsemi_mss_gpio_direction_output st gpio_index v))
                 (MSS_GPIO_INDEX_TO_CFG gpio_cfg_base (unat gpio_index))) n
            \<longleftrightarrow> n = MSS_GPIO_X_CFG_BIT_EN_OUT \<or> n = MSS_GPIO_X_CFG_BIT_GPIO_OE)
    \<and> (\<forall>n. bit (regs (snd (microsemi_mss_gpio_direction_output st gpio_index v)) gpio_out_base) n
            \<longleftrightarrow> (if n = unat gpio_index then v \<noteq> 0 else bit (regs st gpio_out_base) n))
    \<and> iowrites (snd (microsemi_mss_gpio_direction_output st gpio_index v)) =
        iowrites st @
          [(MSS_GPIO_INDEX_TO_CFG gpio_cfg_base (unat gpio_index),
            BIT MSS_GPIO_X_CFG_BIT_EN_OUT OR BIT MSS_GPIO_X_CFG_BIT_GPIO_OE),
           (gpio_out_base,
            if v \<noteq> 0 then regs st gpio_out_base OR BIT (unat gpio_index)
            else regs st gpio_out_base AND NOT (BIT (unat gpio_index)))]"
proof -
  have lt: "unat gpio_index < 32"
    using assms by simp
  show ?thesis
    using lt
    by (auto simp add: direction_output_in_range [OF assms] io_defs cfg_bits
        bit_or_iff bit_and_iff bit_not_iff bit_BIT dest: bit_imp_le_length)
qed

theorem direction_output_overwrites_config_witness:
  "unat (3 :: 32 word) < ngpio chip_armed \<and> ngpio chip_armed \<le> 32
   \<and> fst (microsemi_mss_gpio_direction_output chip_armed 3 1) = Inr 0
   \<and> \<not> bit (regs (snd (microsemi_mss_gpio_direction_output chip_armed 3 1))
              (MSS_GPIO_INDEX_TO_CFG gpio_cfg_base (unat (3 :: 32 word)))) MSS_GPIO_X_CFG_EN_INT
   \<and> bit (regs (snd (microsemi_mss_gpio_direction_output chip_armed 3 1)) gpio_out_base) 3"
proof -
  have h1: "unat (3 :: 32 word) < ngpio chip_armed"
    by (simp add: chip_armed_def)
  have h2: "ngpio chip_armed \<le> 32"
    by (simp add: chip_armed_def)
  show ?thesis
    using h1 h2 direction_output_overwrites_config [OF h1 h2, of 1]
    by (simp add: cfg_bits)
qed

text \<open>
  C10. For a line index below \<open>ngpio\<close>, \<open>get_direction\<close> returns 1 (input) exactly when
  the enable-input bit of the line's configuration register is set and 0 (output) in
  every other case, whether or not enable-output and output-enable are set. So it returns
  1 right after \<open>direction_input\<close> and 0 right after \<open>direction_output\<close> on that line.
\<close>

theorem get_direction_reports_enable_input:
  assumes "unat gpio_index < ngpio st" and "ngpio st \<le> 32"
  shows "microsemi_mss_gpio_get_direction st gpio_index =
      Inr (if bit (regs st (MSS_GPIO_INDEX_TO_CFG gpio_cfg_base (unat gpio_index)))
                  MSS_GPIO_X_CFG_BIT_EN_IN then 1 else 0)
    \<and> microsemi_mss_gpio_get_direction
        (snd (microsemi_mss_gpio_direction_input st gpio_index)) gpio_index = Inr 1
    \<and> microsemi_mss_gpio_get_direction
        (snd (microsemi_mss_gpio_direction_output st gpio_index v)) gpio_index = Inr 0"
proof -
  have lt: "unat gpio_index < 32"
    using assms by simp
  have a: "microsemi_mss_gpio_get_direction st gpio_index =
      Inr (if bit (regs st (MSS_GPIO_INDEX_TO_CFG gpio_cfg_base (unat gpio_index)))
                  MSS_GPIO_X_CFG_BIT_EN_IN then 1 else 0)"
    using assms(1) by (simp add: get_direction_in_range io_defs cfg_bits)
  have b: "microsemi_mss_gpio_get_direction
        (snd (microsemi_mss_gpio_direction_input st gpio_index)) gpio_index = Inr 1"
    using assms(1) lt
    by (simp add: direction_input_in_range get_direction_in_range io_defs
        bit_or_iff bit_and_iff bit_not_iff bit_BIT)
  have c: "microsemi_mss_gpio_get_direction
        (snd (microsemi_mss_gpio_direction_output st gpio_index v)) gpio_index = Inr 0"
    using assms(1) lt
    by (simp add: direction_output_in_range [OF assms] get_direction_in_range io_defs
        bit_or_iff bit_and_iff bit_not_iff bit_BIT)
  from a b c show ?thesis
    by simp
qed

theorem get_direction_reports_enable_input_witness:
  "unat (3 :: 32 word) < ngpio chip_idle \<and> ngpio chip_idle \<le> 32
   \<and> microsemi_mss_gpio_get_direction chip_idle 3 = Inr 0
   \<and> microsemi_mss_gpio_get_direction
        (snd (microsemi_mss_gpio_direction_input chip_idle 3)) 3 = Inr 1
   \<and> microsemi_mss_gpio_get_direction
        (snd (microsemi_mss_gpio_direction_output chip_idle 3 1)) 3 = Inr 0"
proof -
  have h1: "unat (3 :: 32 word) < ngpio chip_idle"
    by (simp add: chip_idle_def)
  have h2: "ngpio chip_idle \<le> 32"
    by (simp add: chip_idle_def)
  have z: "regs chip_idle (MSS_GPIO_INDEX_TO_CFG gpio_cfg_base 3) = 0"
    by (simp add: chip_idle_def)
  show ?thesis
    using h1 h2 get_direction_reports_enable_input [OF h1 h2, of 1]
    by (simp add: z)
qed

text \<open>
  C7. The property (\<open>direction_output\<close> with value \<open>v\<close> followed by \<open>get_value\<close>
  returns \<open>v\<close>, the value being output, as the header comment of \<open>get_value\<close> also
  says) does not hold of the driver: \<open>get_value\<close> reads the input register, which
  \<open>direction_output\<close> does not write. On a controller whose registers all read 0,
  driving line 0 high puts a 1 into the line's bit of the output register, turns
  enable-input off, leaves the input register at 0, and \<open>get_value\<close> for line 0 then
  returns 0.
\<close>

theorem get_value_after_direction_output_reads_input:
  "unat (0 :: 32 word) < ngpio chip_idle
   \<and> fst (microsemi_mss_gpio_direction_output chip_idle 0 1) = Inr 0
   \<and> bit (regs (snd (microsemi_mss_gpio_direction_output chip_idle 0 1)) gpio_out_base) 0
   \<and> microsemi_mss_gpio_get_direction
        (snd (microsemi_mss_gpio_direction_output chip_idle 0 1)) 0 = Inr 0
   \<and> regs (snd (microsemi_mss_gpio_direction_output chip_idle 0 1)) gpio_in_base = 0
   \<and> microsemi_mss_gpio_get_value
        (snd (microsemi_mss_gpio_direction_output chip_idle 0 1)) 0 = Inr 0"
  by (simp add: chip_idle_def microsemi_mss_gpio_get_value_def
      microsemi_mss_gpio_get_direction_def microsemi_mss_gpio_direction_output_def
      assign_bit_regs assign_bit_other io_defs cfg_bits and_BIT_neq0 cfg_output_value
      bit_or_iff bit_BIT)

subsection \<open>Interrupt-chip operations\<close>

lemma irq_index_in_range:
  assumes "unat hwirq < ngpio st" and "ngpio st \<le> 32"
  shows "unat hwirq mod MSS_NUM_GPIO = unat hwirq"
    and "unat (of_nat (unat hwirq) :: 32 word) = unat hwirq"
    and "unat (ucast hwirq :: 32 word) = unat hwirq"
  using assms by (simp_all add: MSS_NUM_GPIO_def unsigned_ucast_eq take_bit_nat_eq_self)

lemma direction_input_ucast:
  assumes "unat hwirq < ngpio st" and "ngpio st \<le> 32"
  shows "microsemi_mss_gpio_direction_input st (ucast hwirq) =
    (Inr 0, MSS_GPIO_IOWRITE
       ((regs st (unat hwirq) OR BIT (Suc 0)) AND NOT (BIT 0 OR BIT 2)) (unat hwirq) st)"
  using direction_input_in_range [of "ucast hwirq" st] assms
  by (simp add: irq_index_in_range(3) [OF assms])

lemma irq_enable_in_range:
  assumes "unat hwirq < ngpio st" and "ngpio st \<le> 32"
  shows "microsemi_mss_gpio_irq_enable st hwirq =
    microsemi_mss_gpio_assign_bit (unat hwirq) 3 1
      (microsemi_mss_gpio_assign_bit gpio_irq_base (unat hwirq) 1
        (snd (microsemi_mss_gpio_direction_input st (of_nat (unat hwirq)))))"
  using assms
  by (simp add: microsemi_mss_gpio_irq_enable_def irq_index_in_range [OF assms]
      MSS_GPIO_INDEX_TO_CFG_def base_offsets cfg_bits Let_def)

lemma irq_enable_regs:
  assumes "unat hwirq < ngpio st" and "ngpio st \<le> 32"
  shows "regs (microsemi_mss_gpio_irq_enable st hwirq) =
    (regs st)(unat hwirq :=
        ((regs st (unat hwirq) OR BIT (Suc 0)) AND NOT (BIT 0 OR BIT 2)) OR BIT 3,
      gpio_irq_base := regs st gpio_irq_base AND NOT (regs st gpio_irq_base OR BIT (unat hwirq)))"
proof -
  have lt: "unat hwirq < 32"
    using assms by simp
  show ?thesis
    using lt
    by (simp add: irq_enable_in_range [OF assms] direction_input_ucast [OF assms]
        irq_index_in_range [OF assms] assign_bit_regs io_defs fun_upd_twist)
qed

lemma irq_enable_iowrites:
  assumes "unat hwirq < ngpio st" and "ngpio st \<le> 32"
  shows "iowrites (microsemi_mss_gpio_irq_enable st hwirq) =
    iowrites st @
      [(unat hwirq, (regs st (unat hwirq) OR BIT (Suc 0)) AND NOT (BIT 0 OR BIT 2)),
       (gpio_irq_base, regs st gpio_irq_base OR BIT (unat hwirq)),
       (unat hwirq, ((regs st (unat hwirq) OR BIT (Suc 0)) AND NOT (BIT 0 OR BIT 2)) OR BIT 3)]"
proof -
  have lt: "unat hwirq < 32"
    using assms by simp
  show ?thesis
    using lt
    by (simp add: irq_enable_in_range [OF assms] direction_input_ucast [OF assms]
        irq_index_in_range [OF assms] assign_bit_regs assign_bit_iowrites io_defs)
qed

lemma irq_enable_other:
  "ngpio (microsemi_mss_gpio_irq_enable st hwirq) = ngpio st"
  "handled (microsemi_mss_gpio_irq_enable st hwirq) = handled st"
  by (simp_all add: microsemi_mss_gpio_irq_enable_def microsemi_mss_gpio_direction_input_def
      assign_bit_other io_defs)

lemma irq_enable_zeroes_status:
  assumes "unat hwirq < ngpio st" and "ngpio st \<le> 32"
  shows "regs (microsemi_mss_gpio_irq_enable st hwirq) gpio_irq_base = 0"
  by (simp only: irq_enable_regs [OF assms] fun_upd_same clear_all)

lemma cfg_input_value:
  "((0 :: 32 word) OR BIT (Suc 0)) AND NOT (BIT 0 OR BIT 2) = BIT 1"
  by (simp add: BIT_def)

text \<open>
  C5. The property (\<open>irq_enable\<close> forces input direction, then clears the line's sticky
  pending bit, then sets interrupt-enable) does not hold of the driver in its second
  step: the write to the status register is a read-modify-write, so it asserts every bit
  that reads 1 at that moment and clears all pending lines, not the enabled line's bit.
  With lines 2 and 5 pending, \<open>irq_enable\<close> for line 2 makes its three writes in the
  stated order, but the write to the status register carries the bits 2 and 5; afterwards
  the status register reads 0, so line 5 is no longer pending although nothing was
  dispatched for it.
\<close>

theorem irq_enable_clears_other_pending_lines:
  "unat (2 :: 64 word) < ngpio chip_two_pending
   \<and> bit (regs chip_two_pending gpio_irq_base) 5
   \<and> iowrites (microsemi_mss_gpio_irq_enable chip_two_pending 2) =
       [(MSS_GPIO_INDEX_TO_CFG gpio_cfg_base 2, BIT MSS_GPIO_X_CFG_BIT_EN_IN),
        (gpio_irq_base, BIT 2 OR BIT 5),
        (MSS_GPIO_INDEX_TO_CFG gpio_cfg_base 2,
         BIT MSS_GPIO_X_CFG_BIT_EN_IN OR BIT MSS_GPIO_X_CFG_EN_INT)]
   \<and> \<not> bit (regs (microsemi_mss_gpio_irq_enable chip_two_pending 2) gpio_irq_base) 5
   \<and> regs (microsemi_mss_gpio_irq_enable chip_two_pending 2) gpio_irq_base = 0
   \<and> handled (microsemi_mss_gpio_irq_enable chip_two_pending 2) = []"
proof -
  have h1: "unat (2 :: 64 word) < ngpio chip_two_pending"
    by (simp add: chip_two_pending_def)
  have h2: "ngpio chip_two_pending \<le> 32"
    by (simp add: chip_two_pending_def)
  have u: "unat (2 :: 64 word) = 2"
    by simp
  have p: "bit (regs chip_two_pending gpio_irq_base) 5"
    by (simp add: chip_two_pending_def bit_or_iff bit_BIT)
  have c: "regs chip_two_pending 2 = 0" "regs chip_two_pending gpio_irq_base = BIT 2 OR BIT 5"
    "iowrites chip_two_pending = []" "handled chip_two_pending = []"
    by (simp_all add: chip_two_pending_def base_offsets)
  have w: "iowrites (microsemi_mss_gpio_irq_enable chip_two_pending 2) =
       [(MSS_GPIO_INDEX_TO_CFG gpio_cfg_base 2, BIT MSS_GPIO_X_CFG_BIT_EN_IN),
        (gpio_irq_base, BIT 2 OR BIT 5),
        (MSS_GPIO_INDEX_TO_CFG gpio_cfg_base 2,
         BIT MSS_GPIO_X_CFG_BIT_EN_IN OR BIT MSS_GPIO_X_CFG_EN_INT)]"
    unfolding irq_enable_iowrites [OF h1 h2] u c cfg_input_value or_absorb_left
    by (simp add: MSS_GPIO_INDEX_TO_CFG_def base_offsets cfg_bits)
  have z: "regs (microsemi_mss_gpio_irq_enable chip_two_pending 2) gpio_irq_base = 0"
    by (rule irq_enable_zeroes_status [OF h1 h2])
  have h: "handled (microsemi_mss_gpio_irq_enable chip_two_pending 2) = []"
    by (simp add: irq_enable_other c)
  from h1 p w z h show ?thesis
    by simp
qed

text \<open>
  C9. For a line index below \<open>ngpio\<close>, \<open>irq_disable\<close> clears the interrupt-enable bit
  of the line's configuration register and keeps every other bit of it (the direction
  bits and the trigger-type bits among them); every other register (the status register,
  the output register, the other lines' configuration registers) keeps its content and
  nothing is dispatched. A second call leaves the registers as the first call left them,
  with interrupt-enable still clear.
\<close>

theorem irq_disable_clears_only_enable_bit:
  assumes "unat hwirq < ngpio st" and "ngpio st \<le> 32"
  shows "(\<forall>n. bit (regs (microsemi_mss_gpio_irq_disable st hwirq)
                  (MSS_GPIO_INDEX_TO_CFG gpio_cfg_base (unat hwirq))) n
            \<longleftrightarrow> n \<noteq> MSS_GPIO_X_CFG_EN_INT
                \<and> bit (regs st (MSS_GPIO_INDEX_TO_CFG gpio_cfg_base (unat hwirq))) n)
    \<and> (\<forall>a. a \<noteq> MSS_GPIO_INDEX_TO_CFG gpio_cfg_base (unat hwirq)
            \<longrightarrow> regs (microsemi_mss_gpio_irq_disable st hwirq) a = regs st a)
    \<and> regs (microsemi_mss_gpio_irq_disable st hwirq) gpio_irq_base = regs st gpio_irq_base
    \<and> regs (microsemi_mss_gpio_irq_disable st hwirq) gpio_out_base = regs st gpio_out_base
    \<and> handled (microsemi_mss_gpio_irq_disable st hwirq) = handled st
    \<and> regs (microsemi_mss_gpio_irq_disable (microsemi_mss_gpio_irq_disable st hwirq) hwirq)
        = regs (microsemi_mss_gpio_irq_disable st hwirq)
    \<and> \<not> bit (regs (microsemi_mss_gpio_irq_disable (microsemi_mss_gpio_irq_disable st hwirq) hwirq)
                (MSS_GPIO_INDEX_TO_CFG gpio_cfg_base (unat hwirq))) MSS_GPIO_X_CFG_EN_INT"
proof -
  have lt: "unat hwirq < 32"
    using assms by simp
  have idem: "(w AND NOT (BIT 3)) AND NOT (BIT 3) = w AND NOT (BIT 3)" for w :: "32 word"
    by (simp add: and.assoc)
  have r: "regs (microsemi_mss_gpio_irq_disable st hwirq) =
      (regs st)(unat hwirq := regs st (unat hwirq) AND NOT (BIT 3))"
    using lt by (simp add: microsemi_mss_gpio_irq_disable_def irq_index_in_range [OF assms]
        assign_bit_regs io_defs cfg_bits)
  have r2: "regs (microsemi_mss_gpio_irq_disable (microsemi_mss_gpio_irq_disable st hwirq) hwirq) =
      (regs st)(unat hwirq := regs st (unat hwirq) AND NOT (BIT 3))"
    using lt by (simp add: microsemi_mss_gpio_irq_disable_def irq_index_in_range [OF assms]
        assign_bit_regs io_defs cfg_bits idem)
  have h: "handled (microsemi_mss_gpio_irq_disable st hwirq) = handled st"
    by (simp add: microsemi_mss_gpio_irq_disable_def assign_bit_other Let_def)
  show ?thesis
    using lt unfolding r r2 h
    by (auto simp add: io_defs cfg_bits bit_and_iff bit_not_iff bit_BIT dest: bit_imp_le_length)
qed

theorem irq_disable_clears_only_enable_bit_witness:
  "unat (3 :: 64 word) < ngpio chip_armed \<and> ngpio chip_armed \<le> 32
   \<and> bit (regs chip_armed (MSS_GPIO_INDEX_TO_CFG gpio_cfg_base 3)) MSS_GPIO_X_CFG_EN_INT
   \<and> \<not> bit (regs (microsemi_mss_gpio_irq_disable chip_armed 3)
              (MSS_GPIO_INDEX_TO_CFG gpio_cfg_base 3)) MSS_GPIO_X_CFG_EN_INT
   \<and> bit (regs (microsemi_mss_gpio_irq_disable chip_armed 3)
            (MSS_GPIO_INDEX_TO_CFG gpio_cfg_base 3)) MSS_GPIO_X_CFG_BIT_EN_IN
   \<and> \<not> bit (regs (microsemi_mss_gpio_irq_disable (microsemi_mss_gpio_irq_disable chip_armed 3) 3)
              (MSS_GPIO_INDEX_TO_CFG gpio_cfg_base 3)) MSS_GPIO_X_CFG_EN_INT"
proof -
  have h1: "unat (3 :: 64 word) < ngpio chip_armed"
    by (simp add: chip_armed_def)
  have h2: "ngpio chip_armed \<le> 32"
    by (simp add: chip_armed_def)
  have p: "bit (regs chip_armed (MSS_GPIO_INDEX_TO_CFG gpio_cfg_base 3)) MSS_GPIO_X_CFG_EN_INT"
    "bit (regs chip_armed (MSS_GPIO_INDEX_TO_CFG gpio_cfg_base 3)) MSS_GPIO_X_CFG_BIT_EN_IN"
    by (simp_all add: chip_armed_def bit_or_iff bit_BIT cfg_bits)
  show ?thesis
    using h1 h2 p irq_disable_clears_only_enable_bit [OF h1 h2]
    by (simp add: cfg_bits)
qed

lemma interrupt_type_cases:
  "interrupt_type_of IRQ_TYPE_LEVEL_HIGH = push_bit 5 0"
  "interrupt_type_of IRQ_TYPE_LEVEL_LOW = push_bit 5 1"
  "interrupt_type_of IRQ_TYPE_EDGE_RISING = push_bit 5 2"
  "interrupt_type_of IRQ_TYPE_EDGE_FALLING = push_bit 5 3"
  "interrupt_type_of IRQ_TYPE_EDGE_BOTH = push_bit 5 4"
  by (simp_all add: interrupt_type_of_def IRQ_TYPE_LEVEL_HIGH_def IRQ_TYPE_LEVEL_LOW_def
      IRQ_TYPE_EDGE_RISING_def IRQ_TYPE_EDGE_FALLING_def IRQ_TYPE_EDGE_BOTH_def
      MSS_GPIO_INTR_EDGE_BOTH_MASK_def MSS_GPIO_INTR_EDGE_NEGATIVE_MASK_def
      MSS_GPIO_INTR_EDGE_POSITIVE_MASK_def MSS_GPIO_INTR_LEVEL_LOW_MASK_def
      MSS_GPIO_INTR_LEVEL_HIGH_MASK_def)

lemma interrupt_type_default:
  assumes "type \<notin> {IRQ_TYPE_LEVEL_HIGH, IRQ_TYPE_LEVEL_LOW, IRQ_TYPE_EDGE_RISING,
      IRQ_TYPE_EDGE_FALLING, IRQ_TYPE_EDGE_BOTH}"
  shows "interrupt_type_of type = push_bit 5 1"
  using assms by (simp add: interrupt_type_of_def MSS_GPIO_INTR_LEVEL_LOW_MASK_def)

lemma irq_set_type_in_range:
  assumes "0 \<le> hwirq_to_int hwirq" and "hwirq_to_int hwirq < int (ngpio st)" and "ngpio st \<le> 32"
  shows "microsemi_mss_gpio_irq_set_type st hwirq type =
    (Inr 0, st\<lparr>regs := (regs st)(nat (hwirq_to_int hwirq) :=
                   regs st (nat (hwirq_to_int hwirq)) OR interrupt_type_of type),
               iowrites := iowrites st @ [(nat (hwirq_to_int hwirq),
                   regs st (nat (hwirq_to_int hwirq)) OR interrupt_type_of type)]\<rparr>)"
proof -
  have "nat (hwirq_to_int hwirq) \<noteq> 32"
    using assms by linarith
  then show ?thesis
    using assms by (simp add: microsemi_mss_gpio_irq_set_type_def io_defs)
qed

text \<open>
  C3. For a line index that passes the range check, \<open>irq_set_type\<close> returns 0 and writes
  to the line's configuration register its previous content ORed with the trigger code
  shifted to bits 5 to 7: 0 for level-high, 1 for level-low, 2 for edge-rising, 3 for
  edge-falling, 4 for edge-both, and 1 (level-low) for any other request. No bit is
  cleared first, so after two calls the register holds the previous content ORed with
  both encodings.
\<close>

theorem irq_set_type_encodes_and_accumulates:
  assumes "0 \<le> hwirq_to_int hwirq" and "hwirq_to_int hwirq < int (ngpio st)" and "ngpio st \<le> 32"
  shows "fst (microsemi_mss_gpio_irq_set_type st hwirq type) = Inr 0
    \<and> regs (snd (microsemi_mss_gpio_irq_set_type st hwirq type))
          (MSS_GPIO_INDEX_TO_CFG gpio_cfg_base (nat (hwirq_to_int hwirq))) =
        regs st (MSS_GPIO_INDEX_TO_CFG gpio_cfg_base (nat (hwirq_to_int hwirq))) OR
        push_bit 5
          (if type = IRQ_TYPE_LEVEL_HIGH then 0
           else if type = IRQ_TYPE_LEVEL_LOW then 1
           else if type = IRQ_TYPE_EDGE_RISING then 2
           else if type = IRQ_TYPE_EDGE_FALLING then 3
           else if type = IRQ_TYPE_EDGE_BOTH then 4
           else 1)
    \<and> regs (snd (microsemi_mss_gpio_irq_set_type
               (snd (microsemi_mss_gpio_irq_set_type st hwirq type)) hwirq type'))
          (MSS_GPIO_INDEX_TO_CFG gpio_cfg_base (nat (hwirq_to_int hwirq))) =
        regs st (MSS_GPIO_INDEX_TO_CFG gpio_cfg_base (nat (hwirq_to_int hwirq))) OR
        interrupt_type_of type OR interrupt_type_of type'"
proof -
  let ?st1 = "snd (microsemi_mss_gpio_irq_set_type st hwirq type)"
  have n1: "ngpio ?st1 = ngpio st"
    by (simp add: irq_set_type_in_range [OF assms])
  have assms1: "hwirq_to_int hwirq < int (ngpio ?st1)" "ngpio ?st1 \<le> 32"
    using assms n1 by simp_all
  have code: "interrupt_type_of type = push_bit 5
          (if type = IRQ_TYPE_LEVEL_HIGH then 0
           else if type = IRQ_TYPE_LEVEL_LOW then 1
           else if type = IRQ_TYPE_EDGE_RISING then 2
           else if type = IRQ_TYPE_EDGE_FALLING then 3
           else if type = IRQ_TYPE_EDGE_BOTH then 4
           else 1)"
    using interrupt_type_cases interrupt_type_default [of type]
    by (simp del: push_bit_numeral)
  have a: "fst (microsemi_mss_gpio_irq_set_type st hwirq type) = Inr 0"
    by (simp add: irq_set_type_in_range [OF assms])
  have b: "regs ?st1 (MSS_GPIO_INDEX_TO_CFG gpio_cfg_base (nat (hwirq_to_int hwirq))) =
      regs st (MSS_GPIO_INDEX_TO_CFG gpio_cfg_base (nat (hwirq_to_int hwirq))) OR
      interrupt_type_of type"
    by (simp add: irq_set_type_in_range [OF assms] io_defs)
  have c: "regs (snd (microsemi_mss_gpio_irq_set_type ?st1 hwirq type'))
          (MSS_GPIO_INDEX_TO_CFG gpio_cfg_base (nat (hwirq_to_int hwirq))) =
        regs ?st1 (MSS_GPIO_INDEX_TO_CFG gpio_cfg_base (nat (hwirq_to_int hwirq))) OR
        interrupt_type_of type'"
    by (simp add: irq_set_type_in_range [OF assms(1) assms1] io_defs)
  show ?thesis
    unfolding c b a code [symmetric] by (simp add: or.assoc)
qed

theorem irq_set_type_encodes_and_accumulates_witness:
  "0 \<le> hwirq_to_int 3 \<and> hwirq_to_int 3 < int (ngpio chip_idle) \<and> ngpio chip_idle \<le> 32
   \<and> fst (microsemi_mss_gpio_irq_set_type chip_idle 3 IRQ_TYPE_EDGE_RISING) = Inr 0
   \<and> regs (snd (microsemi_mss_gpio_irq_set_type chip_idle 3 IRQ_TYPE_EDGE_RISING))
        (MSS_GPIO_INDEX_TO_CFG gpio_cfg_base 3) = MSS_GPIO_INTR_EDGE_POSITIVE_MASK
   \<and> regs (snd (microsemi_mss_gpio_irq_set_type
             (snd (microsemi_mss_gpio_irq_set_type chip_idle 3 IRQ_TYPE_EDGE_RISING))
             3 IRQ_TYPE_LEVEL_LOW))
        (MSS_GPIO_INDEX_TO_CFG gpio_cfg_base 3) = MSS_GPIO_INTR_EDGE_NEGATIVE_MASK"
proof -
  have i: "hwirq_to_int 3 = 3"
    by (simp add: hwirq_to_int_def)
  have h1: "0 \<le> hwirq_to_int 3"
    by (simp add: i)
  have h2: "hwirq_to_int 3 < int (ngpio chip_idle)"
    by (simp add: i chip_idle_def)
  have h3: "ngpio chip_idle \<le> 32"
    by (simp add: chip_idle_def)
  have z: "regs chip_idle (MSS_GPIO_INDEX_TO_CFG gpio_cfg_base 3) = 0"
    by (simp add: chip_idle_def)
  have t: "IRQ_TYPE_EDGE_RISING \<noteq> IRQ_TYPE_LEVEL_HIGH" "IRQ_TYPE_EDGE_RISING \<noteq> IRQ_TYPE_LEVEL_LOW"
    by (simp_all add: IRQ_TYPE_EDGE_RISING_def IRQ_TYPE_LEVEL_HIGH_def IRQ_TYPE_LEVEL_LOW_def)
  have m: "interrupt_type_of IRQ_TYPE_EDGE_RISING OR interrupt_type_of IRQ_TYPE_LEVEL_LOW =
      MSS_GPIO_INTR_EDGE_NEGATIVE_MASK"
    "push_bit 5 2 = MSS_GPIO_INTR_EDGE_POSITIVE_MASK"
    by (simp_all add: interrupt_type_cases MSS_GPIO_INTR_EDGE_NEGATIVE_MASK_def
        MSS_GPIO_INTR_EDGE_POSITIVE_MASK_def)
  show ?thesis
    using h1 h2 h3
      irq_set_type_encodes_and_accumulates [OF h1 h2 h3,
        of IRQ_TYPE_EDGE_RISING IRQ_TYPE_LEVEL_LOW]
    by (simp add: i z t m del: push_bit_numeral)
qed







subsection \<open>Interrupt dispatch\<close>

lemma upt_split_10:
  assumes "10 \<le> n"
  shows "[0..<n] = [0..<10] @ [10..<n]"
proof -
  have "[0..<10 + (n - 10)] = [0..<10] @ [10..<10 + (n - 10)]"
    by (rule upt_add_eq_append) simp
  with assms show ?thesis
    by simp
qed

lemma low_offsets:
  "filter (\<lambda>offset. offset = 2 \<or> offset = 5 \<or> offset = 9) [0..<10] = [2, 5, 9::nat]"
  by code_simp

lemma for_each_set_bit_2_5_9:
  assumes "10 \<le> n" and "n \<le> 32"
  shows "for_each_set_bit (BIT 2 OR BIT 5 OR BIT 9) n = [2, 5, 9]"
proof -
  have b: "bit (BIT 2 OR BIT 5 OR BIT 9) offset \<longleftrightarrow> offset = 2 \<or> offset = 5 \<or> offset = 9"
    for offset
    by (auto simp add: bit_or_iff bit_BIT)
  have "filter (\<lambda>offset. offset = 2 \<or> offset = 5 \<or> offset = 9) [10..<n] = []"
    by (auto simp add: filter_empty_conv)
  then show ?thesis
    unfolding for_each_set_bit_def b upt_split_10 [OF assms(1)] filter_append low_offsets
    by simp
qed

lemma for_each_set_bit_0: "for_each_set_bit 0 n = []"
  by (simp add: for_each_set_bit_def)

lemma for_each_set_bit_examples:
  "for_each_set_bit (BIT 2 OR BIT 5) 10 = [2, 5]"
  "for_each_set_bit (BIT 2) 10 = [2]"
  by (simp_all add: for_each_set_bit_def BIT_def upt_rec bit_numeral_word_iff)

lemma handler_step:
  "generic_handle_irq offset (microsemi_mss_gpio_assign_bit gpio_irq_base offset 1 st) =
     st\<lparr>regs := (regs st)(gpio_irq_base := 0),
        iowrites := iowrites st @ [(gpio_irq_base, regs st gpio_irq_base OR BIT offset)],
        handled := handled st @ [offset]\<rparr>"
proof -
  have "device_write gpio_irq_base (regs st gpio_irq_base OR BIT offset) (regs st) =
      (regs st)(gpio_irq_base := 0)"
    unfolding device_write_def by (simp only: clear_all if_True simp_thms)
  then show ?thesis
    by (simp add: generic_handle_irq_def microsemi_mss_gpio_assign_bit_def
        MSS_GPIO_IOWRITE_def MSS_GPIO_IOREAD_def)
qed

lemma handler_loop_handled:
  "handled (microsemi_gpio_irq_handler_loop offsets st) = handled st @ offsets"
  by (induction offsets arbitrary: st) (simp_all add: handler_step)

lemma handler_loop_regs:
  "regs (microsemi_gpio_irq_handler_loop offsets st) =
     (if offsets = [] then regs st else (regs st)(gpio_irq_base := 0))"
  by (induction offsets arbitrary: st) (simp_all add: handler_step)

text \<open>
  C4. On a controller with at least 10 (and at most 32) lines whose interrupt-status
  register has exactly the bits 2, 5 and 9 set, one run of the interrupt handler hands
  the lines 2, 5 and 9 to \<open>generic_handle_irq\<close>, in this order and no other line,
  leaves the status register with those three bits clear (hence at 0) and every other
  register as it was. When the status register reads 0, the handler returns the
  controller unchanged: nothing dispatched, no bus write.
\<close>

theorem irq_handler_dispatches_2_5_9:
  assumes "10 \<le> ngpio st" and "ngpio st \<le> 32"
  shows "(regs st gpio_irq_base = BIT 2 OR BIT 5 OR BIT 9 \<longrightarrow>
        handled (microsemi_gpio_irq_handler st) = handled st @ [2, 5, 9]
      \<and> regs (microsemi_gpio_irq_handler st) gpio_irq_base = 0
      \<and> (\<forall>a. a \<noteq> gpio_irq_base \<longrightarrow> regs (microsemi_gpio_irq_handler st) a = regs st a))
    \<and> (regs st gpio_irq_base = 0 \<longrightarrow> microsemi_gpio_irq_handler st = st)"
proof -
  have none: "microsemi_gpio_irq_handler st = st" if "regs st gpio_irq_base = 0"
    using that
    by (simp add: microsemi_gpio_irq_handler_def MSS_GPIO_IOREAD_def irq_mask_all
        for_each_set_bit_0)
  have three: "microsemi_gpio_irq_handler st = microsemi_gpio_irq_handler_loop [2, 5, 9] st"
    if "regs st gpio_irq_base = BIT 2 OR BIT 5 OR BIT 9"
    using that
    by (simp only: microsemi_gpio_irq_handler_def MSS_GPIO_IOREAD_def irq_mask_all
        for_each_set_bit_2_5_9 [OF assms] Let_def and.right_neutral)
  show ?thesis
    using none three
    by (simp add: handler_loop_handled handler_loop_regs
        del: microsemi_gpio_irq_handler_loop.simps)
qed

theorem irq_handler_dispatches_2_5_9_witness:
  "10 \<le> ngpio chip_three_pending \<and> ngpio chip_three_pending \<le> 32
   \<and> regs chip_three_pending gpio_irq_base = BIT 2 OR BIT 5 OR BIT 9
   \<and> handled (microsemi_gpio_irq_handler chip_three_pending) = [2, 5, 9]
   \<and> regs (microsemi_gpio_irq_handler chip_three_pending) gpio_irq_base = 0
   \<and> regs chip_idle gpio_irq_base = 0
   \<and> iowrites (microsemi_gpio_irq_handler chip_idle) = []
   \<and> handled (microsemi_gpio_irq_handler chip_idle) = []"
proof -
  have h1: "10 \<le> ngpio chip_three_pending" "10 \<le> ngpio chip_idle"
    by (simp_all add: chip_three_pending_def chip_idle_def)
  have h2: "ngpio chip_three_pending \<le> 32" "ngpio chip_idle \<le> 32"
    by (simp_all add: chip_three_pending_def chip_idle_def)
  have s: "regs chip_three_pending gpio_irq_base = BIT 2 OR BIT 5 OR BIT 9"
    "regs chip_idle gpio_irq_base = 0"
    by (simp_all add: chip_three_pending_def chip_idle_def)
  have e: "handled chip_three_pending = []" "iowrites chip_idle = []" "handled chip_idle = []"
    by (simp_all add: chip_three_pending_def chip_idle_def)
  show ?thesis
    using h1 h2 s e
      irq_handler_dispatches_2_5_9 [OF h1(1) h2(1)]
      irq_handler_dispatches_2_5_9 [OF h1(2) h2(2)]
    by simp
qed

text \<open>
  C1. The property (each write that clears a pending line asserts only that line's bit)
  does not hold of the handler: the write is a read-modify-write of the status register,
  so it asserts every bit that reads 1 at that moment. With lines 2 and 5 pending the first
  write carries the bits 2 and 5, not bit 2 alone. And when line 7 became pending after
  the handler took its snapshot of a status register with only line 2 pending, the write
  for line 2 clears line 7 as well, and line 7 is never dispatched.
\<close>

theorem irq_handler_clear_asserts_all_pending_bits:
  "iowrites (microsemi_gpio_irq_handler chip_two_pending) =
     [(gpio_irq_base, BIT 2 OR BIT 5), (gpio_irq_base, BIT 5)]
   \<and> bit (snd (hd (iowrites (microsemi_gpio_irq_handler chip_two_pending)))) 5
   \<and> iowrites (microsemi_gpio_irq_handler_loop
        (for_each_set_bit (BIT 2) (ngpio chip_late_pending)) chip_late_pending) =
     [(gpio_irq_base, BIT 2 OR BIT 7)]
   \<and> handled (microsemi_gpio_irq_handler_loop
        (for_each_set_bit (BIT 2) (ngpio chip_late_pending)) chip_late_pending) = [2]
   \<and> regs (microsemi_gpio_irq_handler_loop
        (for_each_set_bit (BIT 2) (ngpio chip_late_pending)) chip_late_pending)
        gpio_irq_base = 0"
  by (simp add: microsemi_gpio_irq_handler_def chip_two_pending_def chip_late_pending_def
      MSS_GPIO_IOREAD_def irq_mask_all for_each_set_bit_examples handler_step or_absorb_left
      bit_or_iff bit_BIT)

subsection \<open>Bring-up\<close>

lemma probe_loop_append:
  "microsemi_mss_gpio_probe_loop (xs @ ys) st =
     microsemi_mss_gpio_probe_loop ys (microsemi_mss_gpio_probe_loop xs st)"
  by (induction xs arbitrary: st) simp_all

lemma probe_loop_ngpio: "ngpio (microsemi_mss_gpio_probe_loop xs st) = ngpio st"
  by (induction xs arbitrary: st) (simp_all add: io_defs)

lemma probe_loop_regs:
  assumes "n \<le> 32"
  shows "regs (microsemi_mss_gpio_probe_loop [0..<n] st) a =
     (if a < n then regs st a AND NOT (BIT MSS_GPIO_X_CFG_EN_INT) else regs st a)"
  using assms
proof (induction n arbitrary: a)
  case 0
  then show ?case by simp
next
  case (Suc n)
  then have "n \<noteq> 32" and "n \<le> 32"
    by simp_all
  with Suc.IH show ?case
    by (simp add: probe_loop_append io_defs)
qed

text \<open>
  C8. When the platform steps before the line-count check succeed and the platform
  describes more than 32 lines, the probe function returns \<open>-EINVAL\<close>; with more than 32
  lines it fails in every case. When every platform step succeeds and there are at most
  32 lines, it succeeds. Whenever it succeeds, the controller has as many lines as the
  platform described, at most 32, and in the configuration register of every line the
  interrupt-enable bit is clear and every other bit is as the hardware had it, whatever
  the registers held before.
\<close>

theorem probe_rejects_too_many_and_disables_all:
  "(devm_kzalloc_ok pdev \<and> devm_ioremap_resource_err pdev = None
      \<and> devm_clk_get_err pdev = None \<and> clk_prepare_enable_ret pdev = 0
      \<and> of_irq_count pdev > 32
      \<longrightarrow> microsemi_mss_gpio_probe pdev = Inl EINVAL)
   \<and> (of_irq_count pdev > 32 \<longrightarrow> (\<exists>e. microsemi_mss_gpio_probe pdev = Inl e))
   \<and> (devm_kzalloc_ok pdev \<and> devm_ioremap_resource_err pdev = None
      \<and> devm_clk_get_err pdev = None \<and> clk_prepare_enable_ret pdev = 0
      \<and> of_irq_count pdev \<le> 32 \<and> 0 \<le> devm_irq_alloc_descs_ret pdev
      \<and> gpiochip_add_data_ret pdev = 0
      \<longrightarrow> (\<exists>st. microsemi_mss_gpio_probe pdev = Inr st))
   \<and> (\<forall>st. microsemi_mss_gpio_probe pdev = Inr st \<longrightarrow>
        ngpio st = of_irq_count pdev \<and> ngpio st \<le> 32
        \<and> (\<forall>i < of_irq_count pdev. \<forall>n.
              bit (regs st (MSS_GPIO_INDEX_TO_CFG gpio_cfg_base i)) n \<longleftrightarrow>
                n \<noteq> MSS_GPIO_X_CFG_EN_INT
                \<and> bit (window pdev (MSS_GPIO_INDEX_TO_CFG gpio_cfg_base i)) n))"
proof -
  have fail: "microsemi_mss_gpio_probe pdev = Inl EINVAL"
    if "devm_kzalloc_ok pdev" "devm_ioremap_resource_err pdev = None"
      "devm_clk_get_err pdev = None" "clk_prepare_enable_ret pdev = 0" "of_irq_count pdev > 32"
    using that by (simp add: microsemi_mss_gpio_probe_def MSS_NUM_GPIO_def)
  have fails: "\<exists>e. microsemi_mss_gpio_probe pdev = Inl e" if "of_irq_count pdev > 32"
    using that by (simp add: microsemi_mss_gpio_probe_def MSS_NUM_GPIO_def split: option.split)
  have ok: "\<exists>st. microsemi_mss_gpio_probe pdev = Inr st"
    if "devm_kzalloc_ok pdev" "devm_ioremap_resource_err pdev = None"
      "devm_clk_get_err pdev = None" "clk_prepare_enable_ret pdev = 0"
      "of_irq_count pdev \<le> 32" "0 \<le> devm_irq_alloc_descs_ret pdev"
      "gpiochip_add_data_ret pdev = 0"
    using that by (simp add: microsemi_mss_gpio_probe_def MSS_NUM_GPIO_def Let_def)
  have post: "ngpio st = of_irq_count pdev \<and> ngpio st \<le> 32
        \<and> (\<forall>i < of_irq_count pdev. \<forall>n.
              bit (regs st (MSS_GPIO_INDEX_TO_CFG gpio_cfg_base i)) n \<longleftrightarrow>
                n \<noteq> MSS_GPIO_X_CFG_EN_INT
                \<and> bit (window pdev (MSS_GPIO_INDEX_TO_CFG gpio_cfg_base i)) n)"
    if "microsemi_mss_gpio_probe pdev = Inr st" for st
  proof -
    let ?st0 = "\<lparr>ngpio = of_irq_count pdev, regs = window pdev, iowrites = [], handled = []\<rparr>"
    from that have le: "of_irq_count pdev \<le> 32"
      and st: "st = microsemi_mss_gpio_probe_loop [0..<of_irq_count pdev] ?st0"
      by (auto simp add: microsemi_mss_gpio_probe_def MSS_NUM_GPIO_def Let_def
          split: if_splits option.splits)
    show ?thesis
      using le unfolding st
      by (auto simp add: probe_loop_ngpio probe_loop_regs [OF le] io_defs cfg_bits
          bit_and_iff bit_not_iff bit_BIT dest: bit_imp_le_length)
  qed
  from fail fails ok post show ?thesis
    by blast
qed

theorem probe_rejects_too_many_and_disables_all_witness:
  "of_irq_count pdev_too_many_lines > 32
   \<and> microsemi_mss_gpio_probe pdev_too_many_lines = Inl EINVAL
   \<and> bit (window pdev_eight_lines (MSS_GPIO_INDEX_TO_CFG gpio_cfg_base 3)) MSS_GPIO_X_CFG_EN_INT
   \<and> (case microsemi_mss_gpio_probe pdev_eight_lines of
         Inl e \<Rightarrow> False
       | Inr st \<Rightarrow> ngpio st = 8
           \<and> \<not> bit (regs st (MSS_GPIO_INDEX_TO_CFG gpio_cfg_base 3)) MSS_GPIO_X_CFG_EN_INT
           \<and> bit (regs st (MSS_GPIO_INDEX_TO_CFG gpio_cfg_base 3)) 5)"
proof -
  have many: "devm_kzalloc_ok pdev_too_many_lines"
    "devm_ioremap_resource_err pdev_too_many_lines = None"
    "devm_clk_get_err pdev_too_many_lines = None"
    "clk_prepare_enable_ret pdev_too_many_lines = 0"
    "of_irq_count pdev_too_many_lines > 32"
    by (simp_all add: pdev_too_many_lines_def pdev_eight_lines_def)
  have eight: "devm_kzalloc_ok pdev_eight_lines"
    "devm_ioremap_resource_err pdev_eight_lines = None"
    "devm_clk_get_err pdev_eight_lines = None"
    "clk_prepare_enable_ret pdev_eight_lines = 0"
    "of_irq_count pdev_eight_lines \<le> 32" "0 \<le> devm_irq_alloc_descs_ret pdev_eight_lines"
    "gpiochip_add_data_ret pdev_eight_lines = 0" "of_irq_count pdev_eight_lines = 8"
    by (simp_all add: pdev_eight_lines_def)
  have m: "MSS_GPIO_INTR_LEVEL_LOW_MASK = BIT 5"
    by (simp add: MSS_GPIO_INTR_LEVEL_LOW_MASK_def BIT_def)
  have w: "bit (window pdev_eight_lines (MSS_GPIO_INDEX_TO_CFG gpio_cfg_base 3)) n
      \<longleftrightarrow> n = 3 \<or> n = 5" for n
    by (auto simp add: pdev_eight_lines_def m cfg_bits bit_or_iff bit_BIT)
  from probe_rejects_too_many_and_disables_all [of pdev_too_many_lines] many
  have a: "microsemi_mss_gpio_probe pdev_too_many_lines = Inl EINVAL"
    by blast
  from probe_rejects_too_many_and_disables_all [of pdev_eight_lines] eight
  obtain st where st: "microsemi_mss_gpio_probe pdev_eight_lines = Inr st"
    by blast
  with probe_rejects_too_many_and_disables_all [of pdev_eight_lines] eight
  have "ngpio st = 8"
    and "\<forall>i<8. \<forall>n. bit (regs st (MSS_GPIO_INDEX_TO_CFG gpio_cfg_base i)) n \<longleftrightarrow>
        n \<noteq> MSS_GPIO_X_CFG_EN_INT
        \<and> bit (window pdev_eight_lines (MSS_GPIO_INDEX_TO_CFG gpio_cfg_base i)) n"
    by auto
  then have "ngpio st = 8
      \<and> \<not> bit (regs st (MSS_GPIO_INDEX_TO_CFG gpio_cfg_base 3)) MSS_GPIO_X_CFG_EN_INT
      \<and> bit (regs st (MSS_GPIO_INDEX_TO_CFG gpio_cfg_base 3)) 5"
    by (simp add: w cfg_bits)
  with a st many(5) w show ?thesis
    by (simp add: cfg_bits)
qed

end
